theory Spec2Isabelle
  imports Main "HOL-Library.Word"
begin

unbundle bit_operations_syntax

section \<open>The TCS34725 colour-sensor driver (hw/drivers/sensors/tcs34725/src/tcs34725.c)\<close>

text \<open>
  The driver talks to the sensor through the two blocking primitives of the I2C
  hardware abstraction layer and keeps its own state in three global bytes, a
  statistics section and the configuration snapshot of the device handle. The
  embedding passes all of that explicitly: every driver function takes the
  environment (the HAL and the build configuration) and the world (the state behind
  the HAL, the driver's globals, and a chronological record of every bus operation
  and every sleep) and returns its C return code together with the new world.
\<close>

subsection \<open>Machine types\<close>

type_synonym u8 = "8 word"
type_synonym u16 = "16 word"
type_synonym u32 = "32 word"

text \<open>C's \<open>int\<close>, as the HAL returns it and as \<open>rc |= ...\<close> combines it.\<close>
type_synonym c_int = "32 word"

text \<open>
  Arithmetic in C's \<open>int\<close>: 32 bits, two's complement. The operations are written on
  the mathematical integers with the wrap-around spelled out, so that a product that
  leaves the range comes out as the 32-bit machine leaves it (C itself leaves signed
  overflow undefined). Division truncates towards zero.
\<close>

definition c_int_wrap :: "int \<Rightarrow> int" where
  "c_int_wrap x = (x + 2147483648) mod 4294967296 - 2147483648"

definition c_mul :: "int \<Rightarrow> int \<Rightarrow> int" where
  "c_mul a b = c_int_wrap (a * b)"

definition c_div :: "int \<Rightarrow> int \<Rightarrow> int" where
  "c_div a b =
     c_int_wrap (if (a < 0) = (b < 0) then \<bar>a\<bar> div \<bar>b\<bar> else - (\<bar>a\<bar> div \<bar>b\<bar>))"

definition c_add :: "int \<Rightarrow> int \<Rightarrow> int" where
  "c_add a b = c_int_wrap (a + b)"

subsection \<open>Constants of the headers\<close>

text \<open>
  Modelled from the spec: the register map and flag macros of tcs34725_priv.h, the
  enumerations of tcs34725.h and SYS_EINVAL of defs/error.h are not part of the
  source at hand. The spec fixes the command bit (bit 7) and the special-function
  byte \<open>0x80 | (0b11 << 5) | 0b00110\<close>; the remaining values are the register
  addresses, identity value and field encodings of the sensor the spec describes.
\<close>

definition TCS34725_COMMAND_BIT :: u8 where "TCS34725_COMMAND_BIT = 0x80"
definition TCS34725_CMD_TYPE :: u8 where "TCS34725_CMD_TYPE = 0x60"
definition TCS34725_CMD_ADDR :: u8 where "TCS34725_CMD_ADDR = 0x06"

definition TCS34725_REG_ENABLE :: u8 where "TCS34725_REG_ENABLE = 0x00"
definition TCS34725_ENABLE_AIEN :: u8 where "TCS34725_ENABLE_AIEN = 0x10"
definition TCS34725_ENABLE_AEN :: u8 where "TCS34725_ENABLE_AEN = 0x02"
definition TCS34725_ENABLE_PON :: u8 where "TCS34725_ENABLE_PON = 0x01"
definition TCS34725_REG_ATIME :: u8 where "TCS34725_REG_ATIME = 0x01"
definition TCS34725_REG_AILTL :: u8 where "TCS34725_REG_AILTL = 0x04"
definition TCS34725_REG_CONTROL :: u8 where "TCS34725_REG_CONTROL = 0x0F"
definition TCS34725_REG_ID :: u8 where "TCS34725_REG_ID = 0x12"
definition TCS34725_REG_CDATAL :: u8 where "TCS34725_REG_CDATAL = 0x14"

definition TCS34725_ID :: u8 where "TCS34725_ID = 0x44"

definition TCS34725_INTEGRATIONTIME_2_4MS :: u8 where "TCS34725_INTEGRATIONTIME_2_4MS = 0xFF"
definition TCS34725_INTEGRATIONTIME_24MS :: u8 where "TCS34725_INTEGRATIONTIME_24MS = 0xF6"
definition TCS34725_INTEGRATIONTIME_50MS :: u8 where "TCS34725_INTEGRATIONTIME_50MS = 0xEB"
definition TCS34725_INTEGRATIONTIME_101MS :: u8 where "TCS34725_INTEGRATIONTIME_101MS = 0xD5"
definition TCS34725_INTEGRATIONTIME_154MS :: u8 where "TCS34725_INTEGRATIONTIME_154MS = 0xC0"
definition TCS34725_INTEGRATIONTIME_700MS :: u8 where "TCS34725_INTEGRATIONTIME_700MS = 0x00"

definition TCS34725_GAIN_1X :: u8 where "TCS34725_GAIN_1X = 0x00"
definition TCS34725_GAIN_4X :: u8 where "TCS34725_GAIN_4X = 0x01"
definition TCS34725_GAIN_16X :: u8 where "TCS34725_GAIN_16X = 0x02"
definition TCS34725_GAIN_60X :: u8 where "TCS34725_GAIN_60X = 0x03"

definition SYS_EINVAL :: c_int where "SYS_EINVAL = - 2"

subsection \<open>Environment and world\<close>

text \<open>
  The environment holds what the driver is compiled and linked against:
  \<^item> \<open>hal_i2c_master_write bytes last_op d\<close> transmits \<open>bytes\<close> (the first \<open>len\<close> bytes
    of the buffer the driver hands over) and returns the HAL's return code and the new
    state behind the HAL;
  \<^item> \<open>hal_i2c_master_read len last_op d\<close> asks for \<open>len\<close> bytes and returns the return
    code, the bytes the HAL stored into the buffer, and the new state;
  \<^item> \<open>os_time_delay ticks d\<close> is the effect on that state of sleeping for \<open>ticks\<close>;
  \<^item> \<open>OS_TICKS_PER_SEC\<close>, the tick rate of the platform, which enters the driver's
    arithmetic as an \<open>int\<close>, and the syscfg switch \<open>TCS34725_STATS\<close>.
  The bus number, the device address and the timeout \<open>OS_TICKS_PER_SEC / 10\<close> are
  the same in every call of the driver and are left out of the record of events.
\<close>

record 'd env =
  hal_i2c_master_write :: "u8 list \<Rightarrow> u8 \<Rightarrow> 'd \<Rightarrow> c_int \<times> 'd"
  hal_i2c_master_read :: "nat \<Rightarrow> u8 \<Rightarrow> 'd \<Rightarrow> c_int \<times> u8 list \<times> 'd"
  os_time_delay :: "int \<Rightarrow> 'd \<Rightarrow> 'd"
  OS_TICKS_PER_SEC :: nat
  TCS34725_STATS :: bool

datatype event =
  I2C_Write "u8 list" u8
| I2C_Read nat u8
| OS_Delay int

text \<open>The statistics section \<open>tcs34725_stat_section\<close>: 32-bit counters.\<close>

record stats =
  samples_2_4ms :: u32
  samples_24ms :: u32
  samples_50ms :: u32
  samples_101ms :: u32
  samples_154ms :: u32
  samples_700ms :: u32
  samples_userdef :: u32
  errors :: u32

record 'd world =
  dev :: 'd
  trace :: "event list"
  g_tcs34725_gain :: u8
  g_tcs34725_integration_time :: u8
  g_tcs34725_enabled :: u8
  g_tcs34725stats :: stats

text \<open>\<open>struct tcs34725_cfg\<close> and the part of \<open>struct tcs34725\<close> the driver code touches.\<close>

record tcs34725_cfg =
  integration_time :: u8
  gain :: u8

record tcs34725 =
  cfg :: tcs34725_cfg

subsection \<open>Primitive steps\<close>

definition i2c_write :: "'d env \<Rightarrow> u8 list \<Rightarrow> u8 \<Rightarrow> 'd world \<Rightarrow> c_int \<times> 'd world" where
  "i2c_write e bytes last_op w =
     (case hal_i2c_master_write e bytes last_op (dev w) of
        (rc, d) \<Rightarrow> (rc, w\<lparr>dev := d, trace := trace w @ [I2C_Write bytes last_op]\<rparr>))"

text \<open>
  The HAL stores what it received at the start of the buffer; bytes of the buffer it
  did not store keep their content.
\<close>

definition store_bytes :: "u8 list \<Rightarrow> u8 list \<Rightarrow> u8 list" where
  "store_bytes bs buf = take (length buf) (bs @ drop (length bs) buf)"

definition i2c_read ::
  "'d env \<Rightarrow> u8 list \<Rightarrow> nat \<Rightarrow> u8 \<Rightarrow> 'd world \<Rightarrow> c_int \<times> u8 list \<times> 'd world" where
  "i2c_read e buf len last_op w =
     (case hal_i2c_master_read e len last_op (dev w) of
        (rc, bs, d) \<Rightarrow>
          (rc, store_bytes (take len bs) buf,
           w\<lparr>dev := d, trace := trace w @ [I2C_Read len last_op]\<rparr>))"

definition delay :: "'d env \<Rightarrow> int \<Rightarrow> 'd world \<Rightarrow> 'd world" where
  "delay e ticks w =
     w\<lparr>dev := os_time_delay e ticks (dev w), trace := trace w @ [OS_Delay ticks]\<rparr>"

text \<open>\<open>STATS_INC(g_tcs34725stats, errors)\<close> under \<open>#if MYNEWT_VAL(TCS34725_STATS)\<close>.\<close>

definition stats_inc_errors :: "'d env \<Rightarrow> 'd world \<Rightarrow> 'd world" where
  "stats_inc_errors e w =
     (if TCS34725_STATS e
      then w\<lparr>g_tcs34725stats := (g_tcs34725stats w)\<lparr>errors := errors (g_tcs34725stats w) + 1\<rparr>\<rparr>
      else w)"

subsection \<open>Register transport\<close>

text \<open>
  \<open>tcs34725_write8(reg, value)\<close>: one two-byte write
  \<open>{reg | TCS34725_COMMAND_BIT, value & 0xFF}\<close>; \<open>value\<close> is a \<open>uint32_t\<close>.
\<close>

definition tcs34725_write8 :: "'d env \<Rightarrow> u8 \<Rightarrow> u32 \<Rightarrow> 'd world \<Rightarrow> c_int \<times> 'd world" where
  "tcs34725_write8 e reg val w =
     (let payload = [reg OR TCS34725_COMMAND_BIT, ucast (val AND 0xFF)] in
      case i2c_write e (take 2 payload) 1 w of
        (rc, w1) \<Rightarrow> if rc \<noteq> 0 then (rc, stats_inc_errors e w1) else (rc, w1))"

text \<open>
  \<open>tcs34725_read8(reg, value)\<close>: the third argument is the content of \<open>*value\<close> before
  the call, the second component of the result its content afterwards. \<open>*value\<close> is
  assigned after the read whether or not the read failed, and not at all when the
  register write failed.
\<close>

definition tcs34725_read8 :: "'d env \<Rightarrow> u8 \<Rightarrow> u8 \<Rightarrow> 'd world \<Rightarrow> c_int \<times> u8 \<times> 'd world" where
  "tcs34725_read8 e reg val w =
     (let payload = [reg OR TCS34725_COMMAND_BIT] in
      case i2c_write e (take 1 payload) 1 w of
        (rc, w1) \<Rightarrow>
          if rc \<noteq> 0 then (rc, val, stats_inc_errors e w1)
          else
            (let payload = [0] in
             case i2c_read e payload 1 1 w1 of
               (rc, payload, w2) \<Rightarrow>
                 (let val = hd payload in
                  if rc \<noteq> 0 then (rc, val, stats_inc_errors e w2) else (rc, val, w2))))"

text \<open>
  \<open>tcs34725_readlen(reg, buffer, len)\<close>. The result carries the content of the
  caller's buffer afterwards. The scratch array has nine bytes and the caller's buffer
  its own length; a \<open>len\<close> beyond either makes \<open>memset\<close>, the HAL or \<open>memcpy\<close> run
  past an array, which C leaves undefined: the model returns \<open>None\<close> there.
\<close>

definition tcs34725_readlen ::
  "'d env \<Rightarrow> u8 \<Rightarrow> u8 list \<Rightarrow> u8 \<Rightarrow> 'd world \<Rightarrow> (c_int \<times> u8 list \<times> 'd world) option" where
  "tcs34725_readlen e reg buffer len w =
     (if 9 < unat len \<or> length buffer < unat len then None
      else
        (let payload = (reg OR TCS34725_COMMAND_BIT) # replicate 8 0;
             buffer = replicate (unat len) 0 @ drop (unat len) buffer
         in case i2c_write e (take 1 payload) 1 w of
              (rc, w1) \<Rightarrow>
                if rc \<noteq> 0 then Some (rc, buffer, stats_inc_errors e w1)
                else
                  (let payload = replicate 9 0 in
                   case i2c_read e payload (unat len) 1 w1 of
                     (rc, payload, w2) \<Rightarrow>
                       if rc \<noteq> 0 then Some (rc, buffer, stats_inc_errors e w2)
                       else Some (0, take (unat len) payload @ drop (unat len) buffer, w2))))"

text \<open>
  \<open>tcs34725_writelen(reg, buffer, len)\<close>. The scratch array is \<open>{reg, 0, ..., 0}\<close>;
  \<open>memcpy(&payload[1], buffer, len)\<close> puts the caller's bytes behind the register byte.
  The first HAL write is issued with \<open>data_struct.len = 1\<close>. Then the scratch array is
  cleared, \<open>data_struct.len\<close> becomes \<open>len\<close>, and a second HAL write is issued with
  \<open>last_op = len\<close>. A \<open>len\<close> above eight, or above the caller's buffer, runs past an
  array in \<open>memcpy\<close>: \<open>None\<close>.
\<close>

definition tcs34725_writelen ::
  "'d env \<Rightarrow> u8 \<Rightarrow> u8 list \<Rightarrow> u8 \<Rightarrow> 'd world \<Rightarrow> (c_int \<times> 'd world) option" where
  "tcs34725_writelen e reg buffer len w =
     (if 8 < unat len \<or> length buffer < unat len then None
      else
        (let payload = reg # replicate 8 0;
             payload = take 1 payload @ take (unat len) buffer @ drop (1 + unat len) payload
         in case i2c_write e (take 1 payload) 1 w of
              (rc, w1) \<Rightarrow>
                if rc \<noteq> 0 then Some (rc, stats_inc_errors e w1)
                else
                  (let payload = replicate 9 0 in
                   case i2c_write e (take (unat len) payload) len w1 of
                     (rc, w2) \<Rightarrow>
                       if rc \<noteq> 0 then Some (rc, stats_inc_errors e w2)
                       else Some (0, w2))))"

text \<open>
  \<open>tcs34725_clear_interrupt()\<close>: the special-function byte, handed to the HAL with
  \<open>data_struct.len = 0\<close>. The failure branch is a bare \<open>goto err\<close>.
\<close>

definition tcs34725_clear_interrupt :: "'d env \<Rightarrow> 'd world \<Rightarrow> c_int \<times> 'd world" where
  "tcs34725_clear_interrupt e w =
     (let payload = [TCS34725_COMMAND_BIT OR TCS34725_CMD_TYPE OR TCS34725_CMD_ADDR] in
      case i2c_write e (take 0 payload) 1 w of
        (rc, w1) \<Rightarrow> if rc \<noteq> 0 then (rc, w1) else (0, w1))"

subsection \<open>Device control\<close>

text \<open>
  \<open>tcs34725_enable(enable)\<close>. The local \<open>reg\<close> is not initialised in C; it is read only
  after \<open>tcs34725_read8\<close> has returned 0 and therefore assigned it, so the value it
  starts with (0 here) never reaches a result. \<open>reg & ~(PON | AEN)\<close> is computed in
  \<open>int\<close> and passed as the \<open>uint32_t\<close> argument of \<open>tcs34725_write8\<close>. The settle
  delay \<open>(3 * OS_TICKS_PER_SEC)/1000 + 1\<close> is computed in \<open>int\<close>.
\<close>

definition tcs34725_enable :: "'d env \<Rightarrow> u8 \<Rightarrow> 'd world \<Rightarrow> c_int \<times> 'd world" where
  "tcs34725_enable e enable w =
     (case tcs34725_read8 e TCS34725_REG_ENABLE 0 w of
        (rc, reg, w1) \<Rightarrow>
          if rc \<noteq> 0 then (rc, w1)
          else
            (let w2 = delay e
                        (c_add (c_div (c_mul 3 (c_int_wrap (int (OS_TICKS_PER_SEC e)))) 1000) 1) w1 in
             case (if enable \<noteq> 0
                   then tcs34725_write8 e TCS34725_REG_ENABLE
                          (ucast (reg OR TCS34725_ENABLE_PON OR TCS34725_ENABLE_AEN)) w2
                   else tcs34725_write8 e TCS34725_REG_ENABLE
                          (ucast reg AND NOT (ucast (TCS34725_ENABLE_PON OR TCS34725_ENABLE_AEN))) w2) of
               (rc, w3) \<Rightarrow>
                 if rc \<noteq> 0 then (rc, w3)
                 else (0, w3\<lparr>g_tcs34725_enabled := enable\<rparr>)))"

definition tcs34725_get_enable :: "'d world \<Rightarrow> u8" where
  "tcs34725_get_enable w = g_tcs34725_enabled w"

definition tcs34725_set_integration_time :: "'d env \<Rightarrow> u8 \<Rightarrow> 'd world \<Rightarrow> c_int \<times> 'd world" where
  "tcs34725_set_integration_time e int_time w =
     (case tcs34725_write8 e TCS34725_REG_ATIME (ucast (int_time OR g_tcs34725_gain w)) w of
        (rc, w1) \<Rightarrow>
          if rc \<noteq> 0 then (rc, w1)
          else (rc, w1\<lparr>g_tcs34725_integration_time := int_time\<rparr>))"

definition tcs34725_get_integration_time :: "'d world \<Rightarrow> u8" where
  "tcs34725_get_integration_time w = g_tcs34725_integration_time w"

definition tcs34725_set_gain :: "'d env \<Rightarrow> u8 \<Rightarrow> 'd world \<Rightarrow> c_int \<times> 'd world" where
  "tcs34725_set_gain e gn w =
     (if gn > TCS34725_GAIN_60X then (SYS_EINVAL, w)
      else
        case tcs34725_write8 e TCS34725_REG_CONTROL
               (ucast (g_tcs34725_integration_time w OR gn)) w of
          (rc, w1) \<Rightarrow>
            if rc \<noteq> 0 then (rc, w1)
            else (rc, w1\<lparr>g_tcs34725_gain := gn\<rparr>))"

definition tcs34725_get_gain :: "'d world \<Rightarrow> u8" where
  "tcs34725_get_gain w = g_tcs34725_gain w"

text \<open>
  \<open>tcs34725_get_chip_id(id)\<close>: the second argument is \<open>*id\<close> before the call, which is
  kept when the read fails (\<open>id\<close> is the identity function in HOL, hence \<open>id_in\<close>). The local \<open>idtmp\<close> is read only after a successful read.
\<close>

definition tcs34725_get_chip_id :: "'d env \<Rightarrow> u8 \<Rightarrow> 'd world \<Rightarrow> c_int \<times> u8 \<times> 'd world" where
  "tcs34725_get_chip_id e id_in w =
     (case tcs34725_read8 e TCS34725_REG_ID 0 w of
        (rc, idtmp, w1) \<Rightarrow>
          if rc \<noteq> 0 then (rc, id_in, w1) else (0, idtmp, w1))"

text \<open>
  \<open>tcs34725_config(tcs34725, cfg)\<close>. The local \<open>id\<close> is declared without a value and is
  compared even when the read failed, so whatever it holds at that point is an input of
  the model: \<open>id0\<close>; \<open>chip_id\<close> is the local afterwards. The result carries the handle afterwards.
\<close>

definition tcs34725_config ::
  "'d env \<Rightarrow> u8 \<Rightarrow> tcs34725 \<Rightarrow> tcs34725_cfg \<Rightarrow> 'd world \<Rightarrow> c_int \<times> tcs34725 \<times> 'd world" where
  "tcs34725_config e id0 h c w =
     (case tcs34725_get_chip_id e id0 w of
        (rc, chip_id, w1) \<Rightarrow>
          if chip_id \<noteq> TCS34725_ID \<or> rc \<noteq> 0 then (SYS_EINVAL, h, w1)
          else
            (case tcs34725_enable e 1 w1 of
               (rc1, w2) \<Rightarrow>
                 (let rc = rc OR rc1 in
                  case tcs34725_set_integration_time e (integration_time c) w2 of
                    (rc2, w3) \<Rightarrow>
                      (let rc = rc OR rc2 in
                       case tcs34725_set_gain e (gain c) w3 of
                         (rc3, w4) \<Rightarrow>
                           (let rc = rc OR rc3 in
                            if rc \<noteq> 0 then (rc, h, w4)
                            else (rc, h\<lparr>cfg := c\<rparr>, w4))))))"

text \<open>
  \<open>tcs34725_set_int_limits(low, high)\<close> and \<open>tcs34725_get_int_limits(low, high)\<close>. The
  getter's four-byte array is not initialised; \<open>tcs34725_readlen\<close> clears it before
  anything else, so the model starts it at zero. \<open>*low\<close> and \<open>*high\<close> are given as they
  were before the call and returned as they are afterwards.
\<close>

definition tcs34725_set_int_limits ::
  "'d env \<Rightarrow> u16 \<Rightarrow> u16 \<Rightarrow> 'd world \<Rightarrow> (c_int \<times> 'd world) option" where
  "tcs34725_set_int_limits e low high w =
     (let payload = [ucast (low AND 0xFF), ucast (drop_bit 8 low),
                     ucast (high AND 0xFF), ucast (drop_bit 8 high)] in
      case tcs34725_writelen e TCS34725_REG_AILTL payload 4 w of
        None \<Rightarrow> None
      | Some (rc, w1) \<Rightarrow> if rc \<noteq> 0 then Some (rc, w1) else Some (0, w1))"

definition tcs34725_get_int_limits ::
  "'d env \<Rightarrow> u16 \<Rightarrow> u16 \<Rightarrow> 'd world \<Rightarrow> (c_int \<times> u16 \<times> u16 \<times> 'd world) option" where
  "tcs34725_get_int_limits e low high w =
     (case tcs34725_readlen e TCS34725_REG_AILTL (replicate 4 0) 4 w of
        None \<Rightarrow> None
      | Some (rc, payload, w1) \<Rightarrow>
          if rc \<noteq> 0 then Some (rc, low, high, w1)
          else
            (let low = ucast (payload ! 0);
                 low = low OR ucast (push_bit 8 (ucast (payload ! 1) :: c_int));
                 high = ucast (payload ! 2);
                 high = high OR ucast (push_bit 8 (ucast (payload ! 3) :: c_int))
             in Some (0, low, high, w1)))"

subsection \<open>Acquisition\<close>

text \<open>
  The \<open>switch\<close> at the head of \<open>tcs34725_get_rawdata\<close> that computes \<open>delay_ticks\<close> from
  \<open>tcs34725->cfg.integration_time\<close>, as a function of its own. Every branch computes
  \<open>(ms * OS_TICKS_PER_SEC)/1000 + 1\<close> in \<open>int\<close>; in the default branch \<open>ms\<close> is the
  byte itself, promoted to \<open>int\<close>. The product of 700 and the tick rate leaves the
  range of \<open>int\<close> once the tick rate exceeds 3067833 per second.
\<close>

definition get_rawdata_delay_ticks :: "'d env \<Rightarrow> u8 \<Rightarrow> int" where
  "get_rawdata_delay_ticks e it =
     (let tps = c_int_wrap (int (OS_TICKS_PER_SEC e)) in
      if it = TCS34725_INTEGRATIONTIME_2_4MS then c_add (c_div (c_mul 3 tps) 1000) 1
      else if it = TCS34725_INTEGRATIONTIME_24MS then c_add (c_div (c_mul 24 tps) 1000) 1
      else if it = TCS34725_INTEGRATIONTIME_50MS then c_add (c_div (c_mul 50 tps) 1000) 1
      else if it = TCS34725_INTEGRATIONTIME_101MS then c_add (c_div (c_mul 101 tps) 1000) 1
      else if it = TCS34725_INTEGRATIONTIME_154MS then c_add (c_div (c_mul 154 tps) 1000) 1
      else if it = TCS34725_INTEGRATIONTIME_700MS then c_add (c_div (c_mul 700 tps) 1000) 1
      else c_add (c_div (c_mul (uint it) tps) 1000) 1)"

text \<open>
  The second \<open>switch\<close>, under \<open>#if MYNEWT_VAL(TCS34725_STATS)\<close>: one counter per table
  entry; the 700 ms case has no \<open>break\<close> and runs on into the default case.
\<close>

definition stats_inc_samples :: "'d env \<Rightarrow> u8 \<Rightarrow> 'd world \<Rightarrow> 'd world" where
  "stats_inc_samples e it w =
     (let s = g_tcs34725stats w in
      if \<not> TCS34725_STATS e then w
      else if it = TCS34725_INTEGRATIONTIME_2_4MS
        then w\<lparr>g_tcs34725stats := s\<lparr>samples_2_4ms := samples_2_4ms s + 1\<rparr>\<rparr>
      else if it = TCS34725_INTEGRATIONTIME_24MS
        then w\<lparr>g_tcs34725stats := s\<lparr>samples_24ms := samples_24ms s + 1\<rparr>\<rparr>
      else if it = TCS34725_INTEGRATIONTIME_50MS
        then w\<lparr>g_tcs34725stats := s\<lparr>samples_50ms := samples_50ms s + 1\<rparr>\<rparr>
      else if it = TCS34725_INTEGRATIONTIME_101MS
        then w\<lparr>g_tcs34725stats := s\<lparr>samples_101ms := samples_101ms s + 1\<rparr>\<rparr>
      else if it = TCS34725_INTEGRATIONTIME_154MS
        then w\<lparr>g_tcs34725stats := s\<lparr>samples_154ms := samples_154ms s + 1\<rparr>\<rparr>
      else if it = TCS34725_INTEGRATIONTIME_700MS
        then w\<lparr>g_tcs34725stats := s\<lparr>samples_700ms := samples_700ms s + 1,
                                     samples_userdef := samples_userdef s + 1\<rparr>\<rparr>
      else w\<lparr>g_tcs34725stats := s\<lparr>samples_userdef := samples_userdef s + 1\<rparr>\<rparr>)"

text \<open>
  \<open>payload[hi] << 8 | payload[lo]\<close>, computed in \<open>int\<close> and stored into a \<open>uint16_t\<close>.
\<close>

definition le16 :: "u8 \<Rightarrow> u8 \<Rightarrow> u16" where
  "le16 lo hi = ucast (push_bit 8 (ucast hi :: c_int) OR ucast lo)"

text \<open>
  \<open>tcs34725_get_rawdata(r, g, b, c, tcs34725)\<close>: the result is the return code, then
  \<open>*r\<close>, \<open>*g\<close>, \<open>*b\<close>, \<open>*c\<close> afterwards (all four are set to zero before the read), then
  the world.
\<close>

definition tcs34725_get_rawdata ::
  "'d env \<Rightarrow> tcs34725 \<Rightarrow> 'd world \<Rightarrow> (c_int \<times> u16 \<times> u16 \<times> u16 \<times> u16 \<times> 'd world) option" where
  "tcs34725_get_rawdata e h w =
     (let payload = replicate 8 0;
          delay_ticks = get_rawdata_delay_ticks e (integration_time (cfg h));
          w1 = delay e delay_ticks w
      in case tcs34725_readlen e TCS34725_REG_CDATAL payload 8 w1 of
           None \<Rightarrow> None
         | Some (rc, payload, w2) \<Rightarrow>
             if rc \<noteq> 0 then Some (rc, 0, 0, 0, 0, w2)
             else
               (let c = le16 (payload ! 0) (payload ! 1);
                    r = le16 (payload ! 2) (payload ! 3);
                    g = le16 (payload ! 4) (payload ! 5);
                    b = le16 (payload ! 6) (payload ! 7)
                in Some (0, r, g, b, c,
                         stats_inc_samples e (integration_time (cfg h)) w2)))"

subsection \<open>A simulated sensor for concrete runs\<close>

text \<open>
  Modelled from the spec: the HAL functions \<open>hal_i2c_master_write\<close> and
  \<open>hal_i2c_master_read\<close> and the sensor behind them are not part of the source at
  hand. For running the driver on concrete inputs the sensor is simulated after the
  bus protocol of the spec: a register file of 32 bytes and an address pointer; the
  first byte of a write selects the register by its low five bits (with or without
  the command bit), the bytes after it are stored at consecutive registers, and a read
  returns consecutive registers from the pointer. \<open>sim_faults\<close> scripts the return
  codes of the coming transactions (none left: success); a transaction that fails
  changes nothing on the sensor. The general theorems below do not depend on this
  simulation: they hold for every environment.
\<close>

record sim_dev =
  sim_regs :: "u8 list"
  sim_ptr :: nat
  sim_faults :: "c_int list"

fun sim_put :: "nat \<Rightarrow> u8 list \<Rightarrow> u8 list \<Rightarrow> u8 list" where
  "sim_put p [] regs = regs"
| "sim_put p (b # bs) regs = sim_put (Suc p mod 32) bs (regs[p := b])"

definition sim_store :: "u8 list \<Rightarrow> sim_dev \<Rightarrow> sim_dev" where
  "sim_store bytes d =
     (case bytes of
        [] \<Rightarrow> d
      | a # ds \<Rightarrow>
          d\<lparr>sim_ptr := unat (a AND 0x1F),
            sim_regs := sim_put (unat (a AND 0x1F)) ds (sim_regs d)\<rparr>)"

definition sim_write :: "u8 list \<Rightarrow> u8 \<Rightarrow> sim_dev \<Rightarrow> c_int \<times> sim_dev" where
  "sim_write bytes last_op d =
     (case sim_faults d of
        [] \<Rightarrow> (0, sim_store bytes d)
      | rc # rest \<Rightarrow>
          if rc \<noteq> 0 then (rc, d\<lparr>sim_faults := rest\<rparr>)
          else (0, sim_store bytes (d\<lparr>sim_faults := rest\<rparr>)))"

definition sim_fetch :: "nat \<Rightarrow> sim_dev \<Rightarrow> u8 list" where
  "sim_fetch len d = map (\<lambda>i. sim_regs d ! ((sim_ptr d + i) mod 32)) [0..<len]"

definition sim_read :: "nat \<Rightarrow> u8 \<Rightarrow> sim_dev \<Rightarrow> c_int \<times> u8 list \<times> sim_dev" where
  "sim_read len last_op d =
     (case sim_faults d of
        [] \<Rightarrow> (0, sim_fetch len d, d)
      | rc # rest \<Rightarrow>
          if rc \<noteq> 0 then (rc, [], d\<lparr>sim_faults := rest\<rparr>)
          else (0, sim_fetch len (d\<lparr>sim_faults := rest\<rparr>), d\<lparr>sim_faults := rest\<rparr>))"

text \<open>A build with a tick rate of 1000 per second and the statistics compiled in.\<close>

definition sim_env :: "sim_dev env" where
  "sim_env =
     \<lparr>hal_i2c_master_write = sim_write, hal_i2c_master_read = sim_read,
      os_time_delay = (\<lambda>ticks d. d), OS_TICKS_PER_SEC = 1000, TCS34725_STATS = True\<rparr>"

definition stats0 :: stats where
  "stats0 =
     \<lparr>samples_2_4ms = 0, samples_24ms = 0, samples_50ms = 0, samples_101ms = 0,
      samples_154ms = 0, samples_700ms = 0, samples_userdef = 0, errors = 0\<rparr>"

text \<open>The world at start-up: the globals are zero, nothing has happened yet.\<close>

definition sim_world :: "u8 list \<Rightarrow> c_int list \<Rightarrow> sim_dev world" where
  "sim_world regs faults =
     \<lparr>dev = \<lparr>sim_regs = regs, sim_ptr = 0, sim_faults = faults\<rparr>, trace = [],
      g_tcs34725_gain = 0, g_tcs34725_integration_time = 0, g_tcs34725_enabled = 0,
      g_tcs34725stats = stats0\<rparr>"

text \<open>
  A register file with the identity register (0x12) holding the expected identity, and
  the colour data registers 0x14 to 0x1B holding the block
  \<open>10 00 20 00 30 00 40 00\<close> (hexadecimal); everything else is zero.
\<close>

definition sim_regs0 :: "u8 list" where
  "sim_regs0 =
     replicate 18 0 @ [0x44, 0x00] @ [0x10, 0x00, 0x20, 0x00, 0x30, 0x00, 0x40, 0x00] @
     replicate 4 0"

subsection \<open>The delay table in the spec's words\<close>

text \<open>
  The nominal conversion time of an integration-time setting in microseconds, as the
  spec's table of \<open>integrationDelay\<close> gives it: 2.4 ms, 24 ms, 50 ms, 101 ms, 154 ms
  and 700 ms for the six enumerated settings, and the byte taken as a count of
  milliseconds for every other value.
\<close>

definition spec_nominal_us :: "u8 \<Rightarrow> int" where
  "spec_nominal_us t =
     (if t = TCS34725_INTEGRATIONTIME_2_4MS then 2400
      else if t = TCS34725_INTEGRATIONTIME_24MS then 24000
      else if t = TCS34725_INTEGRATIONTIME_50MS then 50000
      else if t = TCS34725_INTEGRATIONTIME_101MS then 101000
      else if t = TCS34725_INTEGRATIONTIME_154MS then 154000
      else if t = TCS34725_INTEGRATIONTIME_700MS then 700000
      else uint t * 1000)"

subsection \<open>Concrete runs on the simulated sensor\<close>

text \<open>What a caller sees of an acquisition: the return code, the four channels, the events.\<close>

definition sample_of ::
  "c_int \<times> u16 \<times> u16 \<times> u16 \<times> u16 \<times> 'd world \<Rightarrow>
   c_int \<times> u16 \<times> u16 \<times> u16 \<times> u16 \<times> event list" where
  "sample_of x = (case x of (rc, r, g, b, c, w) \<Rightarrow> (rc, r, g, b, c, trace w))"

text \<open>A handle configured for 2.4 ms and 1x, and a new configuration of 154 ms and 16x.\<close>

definition cfg_old :: tcs34725 where
  "cfg_old = \<lparr>cfg = \<lparr>integration_time = TCS34725_INTEGRATIONTIME_2_4MS, gain = TCS34725_GAIN_1X\<rparr>\<rparr>"

definition cfg_new :: tcs34725_cfg where
  "cfg_new = \<lparr>integration_time = TCS34725_INTEGRATIONTIME_154MS, gain = TCS34725_GAIN_16X\<rparr>"

text \<open>The sensor after the register write that opens a read of the colour data.\<close>

definition sim_dev_at_cdatal :: sim_dev where
  "sim_dev_at_cdatal = \<lparr>sim_regs = sim_regs0, sim_ptr = 20, sim_faults = []\<rparr>"

text \<open>
  Identity check, first run: the identity register of the sensor holds 0. Second run:
  the register write goes through, the read of the identity fails with code 9, and
  the uninitialised local happens to hold the expected identity.
\<close>

definition run_wrong_id :: "c_int \<times> u8 \<times> sim_dev world" where
  "run_wrong_id = tcs34725_get_chip_id sim_env 0 (sim_world (replicate 32 0) [])"

definition run_id_read_fails :: "c_int \<times> u8 \<times> sim_dev world" where
  "run_id_read_fails = tcs34725_get_chip_id sim_env TCS34725_ID (sim_world sim_regs0 [0, 9])"

text \<open>
  A configuration whose sixth bus transaction, the write of the integration time,
  fails with code 7: the steps of \<open>tcs34725_config\<close> one by one, and the call itself.
\<close>

definition faulty_world :: "sim_dev world" where
  "faulty_world = sim_world sim_regs0 [0, 0, 0, 0, 0, 7]"

definition run_step_id :: "c_int \<times> u8 \<times> sim_dev world" where
  "run_step_id = tcs34725_get_chip_id sim_env 0 faulty_world"

definition run_step_enable :: "c_int \<times> sim_dev world" where
  "run_step_enable = tcs34725_enable sim_env 1 (snd (snd run_step_id))"

definition run_step_time :: "c_int \<times> sim_dev world" where
  "run_step_time =
     tcs34725_set_integration_time sim_env (integration_time cfg_new) (snd run_step_enable)"

definition run_step_gain :: "c_int \<times> sim_dev world" where
  "run_step_gain = tcs34725_set_gain sim_env (gain cfg_new) (snd run_step_time)"

definition run_config_faulty :: "c_int \<times> tcs34725 \<times> sim_dev world" where
  "run_config_faulty = tcs34725_config sim_env 0 cfg_old cfg_new faulty_world"

text \<open>
  Configure for 2.4 ms, then apply 700 ms through the setter, then acquire with the
  handle the configuration left behind.
\<close>

definition run_config :: "c_int \<times> tcs34725 \<times> sim_dev world" where
  "run_config =
     tcs34725_config sim_env 0 \<lparr>cfg = \<lparr>integration_time = 0, gain = 0\<rparr>\<rparr>
       \<lparr>integration_time = TCS34725_INTEGRATIONTIME_2_4MS, gain = TCS34725_GAIN_1X\<rparr>
       (sim_world sim_regs0 [])"

definition run_set_time :: "c_int \<times> sim_dev world" where
  "run_set_time =
     tcs34725_set_integration_time sim_env TCS34725_INTEGRATIONTIME_700MS (snd (snd run_config))"

definition run_get_rawdata ::
  "(c_int \<times> u16 \<times> u16 \<times> u16 \<times> u16 \<times> sim_dev world) option" where
  "run_get_rawdata = tcs34725_get_rawdata sim_env (fst (snd run_config)) (snd run_set_time)"

text \<open>Set the interrupt limits to (10, 5), then read them back.\<close>

definition run_set_limits :: "(c_int \<times> sim_dev world) option" where
  "run_set_limits = tcs34725_set_int_limits sim_env 10 5 (sim_world sim_regs0 [])"

definition run_get_limits :: "(c_int \<times> u16 \<times> u16 \<times> sim_dev world) option" where
  "run_get_limits =
     (case run_set_limits of
        None \<Rightarrow> None
      | Some (rc, w) \<Rightarrow> tcs34725_get_int_limits sim_env 0xFFFF 0xFFFF w)"

section \<open>Auxiliary facts\<close>

lemmas tcs34725_consts =
  TCS34725_COMMAND_BIT_def TCS34725_CMD_TYPE_def TCS34725_CMD_ADDR_def
  TCS34725_REG_ENABLE_def TCS34725_ENABLE_AIEN_def TCS34725_ENABLE_AEN_def
  TCS34725_ENABLE_PON_def TCS34725_REG_ATIME_def TCS34725_REG_AILTL_def
  TCS34725_REG_CONTROL_def TCS34725_REG_ID_def TCS34725_REG_CDATAL_def TCS34725_ID_def
  TCS34725_INTEGRATIONTIME_2_4MS_def TCS34725_INTEGRATIONTIME_24MS_def
  TCS34725_INTEGRATIONTIME_50MS_def TCS34725_INTEGRATIONTIME_101MS_def
  TCS34725_INTEGRATIONTIME_154MS_def TCS34725_INTEGRATIONTIME_700MS_def
  TCS34725_GAIN_1X_def TCS34725_GAIN_4X_def TCS34725_GAIN_16X_def TCS34725_GAIN_60X_def
  SYS_EINVAL_def

lemma SYS_EINVAL_nonzero: "SYS_EINVAL \<noteq> 0"
  by (simp add: SYS_EINVAL_def)

lemma low_byte_ucast: "(ucast ((ucast (x :: u8) :: u32) AND 0xFF) :: u8) = x"
proof -
  have m: "(0xFF :: u32) = mask 8" by (simp add: mask_eq_exp_minus_1)
  show ?thesis unfolding m by (rule bit_word_eqI) (auto simp: bit_simps)
qed

lemma gain_enum:
  "(gn \<in> {TCS34725_GAIN_1X, TCS34725_GAIN_4X, TCS34725_GAIN_16X, TCS34725_GAIN_60X}) =
     (\<not> gn > TCS34725_GAIN_60X)"
  unfolding tcs34725_consts
  apply (simp add: word_less_nat_alt word_unat_eq_iff not_less)
  apply (cases "unat gn \<le> 3")
  by auto

lemma or_rc_zero: "(a OR b = (0::c_int)) = (a = 0 \<and> b = 0)"
  by (simp add: or_eq_0_iff)

text \<open>The value assembled from a low and a high byte is \<open>lo + 256 * hi\<close>.\<close>

lemma le16_uint: "uint (le16 lo hi) = uint lo + 256 * uint hi"
proof -
  have "uint (le16 lo hi) = concat_bit 8 (uint lo) (uint hi)"
    unfolding le16_def
    by (rule bit_eqI) (auto simp: bit_simps dest: bit_imp_le_length)
  also have "\<dots> = take_bit 8 (uint lo) + push_bit 8 (uint hi)"
    by (rule concat_bit_eq)
  also have "take_bit 8 (uint lo) = uint lo"
    by (rule take_bit_int_eq_self) (use uint_lt2p [of lo] in simp_all)
  finally show ?thesis by (simp add: push_bit_eq_mult)
qed

lemma le16_unat: "unat (le16 lo hi) = unat lo + 256 * unat hi"
proof -
  have "int (unat (le16 lo hi)) = int (unat lo + 256 * unat hi)"
    by (simp add: le16_uint)
  then show ?thesis by (simp only: of_nat_eq_iff)
qed

lemma stats_inc_errors_keeps [simp]:
  "trace (stats_inc_errors e w) = trace w"
  "dev (stats_inc_errors e w) = dev w"
  "g_tcs34725_gain (stats_inc_errors e w) = g_tcs34725_gain w"
  "g_tcs34725_integration_time (stats_inc_errors e w) = g_tcs34725_integration_time w"
  "g_tcs34725_enabled (stats_inc_errors e w) = g_tcs34725_enabled w"
  by (simp_all add: stats_inc_errors_def)

lemma stats_inc_samples_keeps [simp]:
  "trace (stats_inc_samples e t w) = trace w"
  "dev (stats_inc_samples e t w) = dev w"
  by (simp_all add: stats_inc_samples_def Let_def)

text \<open>A byte handed to \<open>tcs34725_write8\<close> goes out unchanged behind the flagged register.\<close>

lemma write8_byte:
  "tcs34725_write8 e reg (ucast b) w =
     (case hal_i2c_master_write e [reg OR TCS34725_COMMAND_BIT, b] 1 (dev w) of
        (rc, d) \<Rightarrow>
          (rc, (if rc \<noteq> 0 then stats_inc_errors e else (\<lambda>w. w))
                 (w\<lparr>dev := d, trace := trace w @ [I2C_Write [reg OR TCS34725_COMMAND_BIT, b] 1]\<rparr>)))"
  by (simp add: tcs34725_write8_def i2c_write_def low_byte_ucast split: prod.splits)

subsection \<open>What the transport functions put on the bus and into the counters\<close>

lemma read8_effect:
  assumes "tcs34725_read8 e reg v w = (rc, v', w1)"
  shows "(trace w1 = trace w @ [I2C_Write [reg OR TCS34725_COMMAND_BIT] 1] \<or>
          trace w1 = trace w @ [I2C_Write [reg OR TCS34725_COMMAND_BIT] 1, I2C_Read 1 1]) \<and>
         g_tcs34725_gain w1 = g_tcs34725_gain w \<and>
         g_tcs34725_integration_time w1 = g_tcs34725_integration_time w \<and>
         g_tcs34725_enabled w1 = g_tcs34725_enabled w"
  using assms
  by (auto simp: tcs34725_read8_def i2c_write_def i2c_read_def Let_def
        split: prod.splits if_splits)

lemma get_chip_id_effect:
  assumes "tcs34725_get_chip_id e id0 w = (rc, chip_id, w1)"
  shows "(trace w1 = trace w @ [I2C_Write [TCS34725_REG_ID OR TCS34725_COMMAND_BIT] 1] \<or>
          trace w1 = trace w @ [I2C_Write [TCS34725_REG_ID OR TCS34725_COMMAND_BIT] 1, I2C_Read 1 1]) \<and>
         g_tcs34725_gain w1 = g_tcs34725_gain w \<and>
         g_tcs34725_integration_time w1 = g_tcs34725_integration_time w \<and>
         g_tcs34725_enabled w1 = g_tcs34725_enabled w"
proof -
  obtain rc' v' where "tcs34725_read8 e TCS34725_REG_ID 0 w = (rc', v', w1)"
    using assms by (auto simp: tcs34725_get_chip_id_def split: prod.splits if_splits)
  then show ?thesis by (rule read8_effect)
qed

text \<open>The block read of eight bytes into a cleared array, written out.\<close>

lemma readlen_8:
  "tcs34725_readlen e reg (replicate 8 0) 8 w =
     (case hal_i2c_master_write e [reg OR TCS34725_COMMAND_BIT] 1 (dev w) of
        (rc, d1) \<Rightarrow>
          (let w1 = w\<lparr>dev := d1, trace := trace w @ [I2C_Write [reg OR TCS34725_COMMAND_BIT] 1]\<rparr> in
           if rc \<noteq> 0 then Some (rc, replicate 8 0, stats_inc_errors e w1)
           else
             case hal_i2c_master_read e 8 1 d1 of
               (rc, bs, d2) \<Rightarrow>
                 (let w2 = w1\<lparr>dev := d2, trace := trace w1 @ [I2C_Read 8 1]\<rparr> in
                  if rc \<noteq> 0 then Some (rc, replicate 8 0, stats_inc_errors e w2)
                  else Some (0, take 8 (store_bytes (take 8 bs) (replicate 9 0)), w2))))"
  by (simp add: tcs34725_readlen_def i2c_write_def i2c_read_def Let_def split: prod.splits)

lemma block8:
  "store_bytes [c0, c1, r0, r1, g0, g1, b0, b1] (replicate 9 0) =
     [c0, c1, r0, r1, g0, g1, b0, b1, 0]"
  by (simp add: store_bytes_def)

text \<open>
  Whatever the payload, a block write that gets through puts the bare register byte on
  the bus and then, in a second transaction, as many zero bytes as the payload is long.
\<close>

lemma writelen_events:
  assumes "tcs34725_writelen e reg buffer len w = Some (rc, w1)"
  shows "trace w1 = trace w @ [I2C_Write [reg] 1] \<and> rc \<noteq> 0 \<or>
         trace w1 = trace w @ [I2C_Write [reg] 1, I2C_Write (replicate (unat len) 0) len]"
  using assms
  by (auto simp: tcs34725_writelen_def i2c_write_def Let_def split: prod.splits if_splits)

lemma set_int_limits_ignores_values:
  "tcs34725_set_int_limits e low high w = tcs34725_set_int_limits e low' high' w"
  by (simp add: tcs34725_set_int_limits_def tcs34725_writelen_def Let_def)

text \<open>The four register accessors count every failure they return.\<close>

lemma write8_failure_counted:
  assumes "tcs34725_write8 e reg v w = (rc, w1)" and "rc \<noteq> 0" and "TCS34725_STATS e"
  shows "errors (g_tcs34725stats w1) = errors (g_tcs34725stats w) + 1"
  using assms
  by (auto simp: tcs34725_write8_def i2c_write_def stats_inc_errors_def Let_def
        split: prod.splits if_splits)

lemma read8_failure_counted:
  assumes "tcs34725_read8 e reg v w = (rc, v', w1)" and "rc \<noteq> 0" and "TCS34725_STATS e"
  shows "errors (g_tcs34725stats w1) = errors (g_tcs34725stats w) + 1"
  using assms
  by (auto simp: tcs34725_read8_def i2c_write_def i2c_read_def stats_inc_errors_def Let_def
        split: prod.splits if_splits)

lemma readlen_failure_counted:
  assumes "tcs34725_readlen e reg buffer len w = Some (rc, buffer', w1)" and "rc \<noteq> 0"
    and "TCS34725_STATS e"
  shows "errors (g_tcs34725stats w1) = errors (g_tcs34725stats w) + 1"
  using assms
  by (auto simp: tcs34725_readlen_def i2c_write_def i2c_read_def stats_inc_errors_def Let_def
        split: prod.splits if_splits)

lemma writelen_failure_counted:
  assumes "tcs34725_writelen e reg buffer len w = Some (rc, w1)" and "rc \<noteq> 0"
    and "TCS34725_STATS e"
  shows "errors (g_tcs34725stats w1) = errors (g_tcs34725stats w) + 1"
  using assms
  by (auto simp: tcs34725_writelen_def i2c_write_def stats_inc_errors_def Let_def
        split: prod.splits if_splits)

text \<open>\<open>tcs34725_clear_interrupt\<close> never touches the statistics.\<close>

lemma clear_interrupt_never_counts:
  "g_tcs34725stats (snd (tcs34725_clear_interrupt e w)) = g_tcs34725stats w"
  by (auto simp: tcs34725_clear_interrupt_def i2c_write_def Let_def split: prod.splits)

subsection \<open>The shape of an acquisition\<close>

lemma get_rawdata_run:
  assumes "hal_i2c_master_write e [TCS34725_REG_CDATAL OR TCS34725_COMMAND_BIT] 1
             (os_time_delay e (get_rawdata_delay_ticks e (integration_time (cfg h))) (dev w)) = (rc1, d1)"
    and "hal_i2c_master_read e 8 1 d1 = (rc2, bs, d2)"
  shows "\<exists>rc r g b c w'.
     tcs34725_get_rawdata e h w = Some (rc, r, g, b, c, w') \<and>
     (trace w' = trace w @
        [OS_Delay (get_rawdata_delay_ticks e (integration_time (cfg h))),
         I2C_Write [TCS34725_REG_CDATAL OR TCS34725_COMMAND_BIT] 1] \<and> rc \<noteq> 0 \<or>
      trace w' = trace w @
        [OS_Delay (get_rawdata_delay_ticks e (integration_time (cfg h))),
         I2C_Write [TCS34725_REG_CDATAL OR TCS34725_COMMAND_BIT] 1, I2C_Read 8 1])"
proof (cases "rc1 = 0")
  case False
  with assms show ?thesis
    by (simp add: tcs34725_get_rawdata_def readlen_8 delay_def Let_def)
next
  case True
  show ?thesis
  proof (cases "rc2 = 0")
    case False
    with True assms show ?thesis
      by (simp add: tcs34725_get_rawdata_def readlen_8 delay_def Let_def)
  next
    case rc2: True
    with True assms show ?thesis
      by (simp add: tcs34725_get_rawdata_def readlen_8 delay_def Let_def)
  qed
qed

lemma get_rawdata_events:
  "\<exists>rc r g b c w'.
     tcs34725_get_rawdata e h w = Some (rc, r, g, b, c, w') \<and>
     (trace w' = trace w @
        [OS_Delay (get_rawdata_delay_ticks e (integration_time (cfg h))),
         I2C_Write [TCS34725_REG_CDATAL OR TCS34725_COMMAND_BIT] 1] \<and> rc \<noteq> 0 \<or>
      trace w' = trace w @
        [OS_Delay (get_rawdata_delay_ticks e (integration_time (cfg h))),
         I2C_Write [TCS34725_REG_CDATAL OR TCS34725_COMMAND_BIT] 1, I2C_Read 8 1])"
proof -
  obtain rc1 d1 where a: "hal_i2c_master_write e [TCS34725_REG_CDATAL OR TCS34725_COMMAND_BIT] 1
             (os_time_delay e (get_rawdata_delay_ticks e (integration_time (cfg h))) (dev w)) = (rc1, d1)"
    by (rule prod.exhaust)
  obtain rc2 bs d2 where b: "hal_i2c_master_read e 8 1 d1 = (rc2, bs, d2)"
    by (rule prod_cases3)
  from a b show ?thesis by (rule get_rawdata_run)
qed

lemma get_rawdata_ignores_global:
  "map_option sample_of (tcs34725_get_rawdata e h (w\<lparr>g_tcs34725_integration_time := t\<rparr>)) =
   map_option sample_of (tcs34725_get_rawdata e h w)"
proof -
  obtain rc1 d1 where a: "hal_i2c_master_write e [TCS34725_REG_CDATAL OR TCS34725_COMMAND_BIT] 1
             (os_time_delay e (get_rawdata_delay_ticks e (integration_time (cfg h))) (dev w)) = (rc1, d1)"
    by (rule prod.exhaust)
  obtain rc2 bs d2 where b: "hal_i2c_master_read e 8 1 d1 = (rc2, bs, d2)"
    by (rule prod_cases3)
  show ?thesis
    using a b
    by (simp add: tcs34725_get_rawdata_def readlen_8 delay_def Let_def sample_of_def)
qed

subsection \<open>Arithmetic of the delay\<close>

lemma floor_succ: "(x::int) < (x div 1000 + 1) * 1000"
proof -
  define q r where "q = x div 1000" and "r = x mod 1000"
  have "x = q * 1000 + r" unfolding q_def r_def by simp
  moreover have "r < 1000" unfolding r_def by simp
  ultimately have "x < (q + 1) * 1000" by simp
  then show ?thesis unfolding q_def .
qed

lemma ceil_ms: "(u::int) \<le> ((u + 999) div 1000) * 1000"
proof -
  define q r where "q = (u + 999) div 1000" and "r = (u + 999) mod 1000"
  have "u + 999 = q * 1000 + r" unfolding q_def r_def by simp
  moreover have "r < 1000" unfolding r_def by simp
  ultimately have "u \<le> q * 1000" by simp
  then show ?thesis unfolding q_def .
qed

lemma delay_margin:
  fixes m T u :: int
  assumes "0 \<le> T" and "u \<le> m * 1000"
  shows "u * T < ((m * T) div 1000 + 1) * 1000000"
proof -
  have "u * T \<le> (m * 1000) * T"
    using assms(2) assms(1) by (rule mult_right_mono)
  moreover have "(m * T) * 1000 < ((m * T) div 1000 + 1) * 1000 * 1000"
    using floor_succ [of "m * T"] by simp
  ultimately show ?thesis by (simp add: mult.commute mult.left_commute)
qed

text \<open>Within the range of \<open>int\<close> the machine arithmetic is the mathematical one.\<close>

lemma c_int_wrap_id:
  assumes "0 \<le> x" and "x < 2147483648"
  shows "c_int_wrap x = x"
proof -
  have "(x + 2147483648) mod 4294967296 = x + 2147483648"
    by (rule mod_pos_pos_trivial) (use assms in simp_all)
  then show ?thesis by (simp only: c_int_wrap_def add_diff_cancel_right')
qed

lemma ticks_of_ms:
  assumes "0 \<le> m" and "m \<le> 700" and "T \<le> 3067833"
  shows "c_add (c_div (c_mul m (c_int_wrap (int T))) 1000) 1 = (m * int T) div 1000 + 1"
proof -
  define x where "x = m * int T"
  have T: "c_int_wrap (int T) = int T"
    using assms(3) by (intro c_int_wrap_id) simp_all
  have "m * int T \<le> 700 * 3067833"
    using assms by (intro mult_mono) simp_all
  then have hi: "x < 2147483648" unfolding x_def by simp
  have lo: "0 \<le> x" unfolding x_def using assms(1) by simp
  have mul: "c_mul m (int T) = x"
    unfolding c_mul_def x_def [symmetric] using lo hi by (rule c_int_wrap_id)
  have q0: "0 \<le> x div 1000"
    using lo by (simp add: pos_imp_zdiv_nonneg_iff)
  have q1: "x div 1000 \<le> x"
  proof (cases "x = 0")
    case True
    then show ?thesis by simp
  next
    case False
    with lo have "0 < x" by simp
    then show ?thesis by (rule int_div_le_self)
  qed
  have "(if (x < 0) = ((1000::int) < 0) then \<bar>x\<bar> div \<bar>1000\<bar> else - (\<bar>x\<bar> div \<bar>1000\<bar>)) =
      x div 1000"
    using lo by simp
  then have dv: "c_div x 1000 = x div 1000"
    unfolding c_div_def using q0 q1 hi by (simp only: c_int_wrap_id)
  have q2: "x div 1000 + 1 < 2147483648"
  proof -
    have "x div 1000 * 1000 \<le> x" by simp
    with hi show ?thesis by linarith
  qed
  have "c_add (x div 1000) 1 = x div 1000 + 1"
    unfolding c_add_def using q0 q2 by (intro c_int_wrap_id) simp_all
  with T mul dv show ?thesis unfolding x_def by simp
qed

lemma delay_ticks_bound:
  assumes "OS_TICKS_PER_SEC e \<le> 3067833"
  shows "spec_nominal_us t * int (OS_TICKS_PER_SEC e) < get_rawdata_delay_ticks e t * 1000000 \<and>
   get_rawdata_delay_ticks e t =
     (((spec_nominal_us t + 999) div 1000) * int (OS_TICKS_PER_SEC e)) div 1000 + 1"
proof -
  have "uint t < 2 ^ LENGTH(8)" by (rule uint_lt2p)
  then have byte: "uint t \<le> 700" by simp
  have r: "(uint t * 1000 + 999) div 1000 = uint t" by simp
  have ticks: "get_rawdata_delay_ticks e t =
     (((spec_nominal_us t + 999) div 1000) * int (OS_TICKS_PER_SEC e)) div 1000 + 1"
    using byte ticks_of_ms [OF _ _ assms]
    by (simp add: get_rawdata_delay_ticks_def spec_nominal_us_def Let_def r)
  have "spec_nominal_us t * int (OS_TICKS_PER_SEC e) <
      ((((spec_nominal_us t + 999) div 1000) * int (OS_TICKS_PER_SEC e)) div 1000 + 1) * 1000000"
    by (rule delay_margin) (simp, rule ceil_ms)
  with ticks show ?thesis by simp
qed

text \<open>
  Beyond that tick rate the product overflows: at four million ticks per second the
  700 ms entry yields a negative number of ticks.
\<close>

lemma delay_ticks_overflow:
  "get_rawdata_delay_ticks (sim_env\<lparr>OS_TICKS_PER_SEC := 4000000\<rparr>)
     TCS34725_INTEGRATIONTIME_700MS = - 1494966"
  by (simp add: get_rawdata_delay_ticks_def tcs34725_consts c_add_def c_div_def c_mul_def
        c_int_wrap_def)

section \<open>Gain\<close>

text \<open>
  Claim C6. For each of the four enumerated gains, \<open>tcs34725_set_gain\<close> with a
  succeeding bus write returns 0 and \<open>tcs34725_get_gain\<close> then returns that gain. For
  every other byte it returns \<open>SYS_EINVAL\<close> and leaves the whole world as it was: no
  bus operation is recorded and the stored gain is unchanged.
\<close>

theorem set_gain_enumerated:
  "(gn \<in> {TCS34725_GAIN_1X, TCS34725_GAIN_4X, TCS34725_GAIN_16X, TCS34725_GAIN_60X} \<longrightarrow>
      fst (hal_i2c_master_write e
             [TCS34725_REG_CONTROL OR TCS34725_COMMAND_BIT, g_tcs34725_integration_time w OR gn]
             1 (dev w)) = 0 \<longrightarrow>
      fst (tcs34725_set_gain e gn w) = 0 \<and>
      tcs34725_get_gain (snd (tcs34725_set_gain e gn w)) = gn) \<and>
   (gn \<notin> {TCS34725_GAIN_1X, TCS34725_GAIN_4X, TCS34725_GAIN_16X, TCS34725_GAIN_60X} \<longrightarrow>
      tcs34725_set_gain e gn w = (SYS_EINVAL, w) \<and> SYS_EINVAL \<noteq> 0)"
proof -
  have valid:
    "fst (tcs34725_set_gain e gn w) = 0 \<and> tcs34725_get_gain (snd (tcs34725_set_gain e gn w)) = gn"
    if "\<not> TCS34725_GAIN_60X < gn"
      and "fst (hal_i2c_master_write e
             [TCS34725_REG_CONTROL OR TCS34725_COMMAND_BIT, g_tcs34725_integration_time w OR gn]
             1 (dev w)) = 0"
    using that
    by (auto simp: tcs34725_set_gain_def write8_byte tcs34725_get_gain_def split: prod.splits)
  have invalid: "tcs34725_set_gain e gn w = (SYS_EINVAL, w)" if "TCS34725_GAIN_60X < gn"
    using that by (simp add: tcs34725_set_gain_def)
  show ?thesis
    unfolding gain_enum using valid invalid SYS_EINVAL_nonzero by blast
qed

text \<open>An instance on the simulated sensor: 16x is accepted and stored, 4 is rejected.\<close>

theorem set_gain_enumerated_witness:
  "fst (tcs34725_set_gain sim_env TCS34725_GAIN_16X (sim_world sim_regs0 [])) = 0 \<and>
   tcs34725_get_gain (snd (tcs34725_set_gain sim_env TCS34725_GAIN_16X (sim_world sim_regs0 []))) =
     TCS34725_GAIN_16X \<and>
   tcs34725_set_gain sim_env 4 (sim_world sim_regs0 []) = (SYS_EINVAL, sim_world sim_regs0 [])"
proof -
  have a: "TCS34725_GAIN_16X \<in>
      {TCS34725_GAIN_1X, TCS34725_GAIN_4X, TCS34725_GAIN_16X, TCS34725_GAIN_60X}"
    by simp
  have b: "fst (hal_i2c_master_write sim_env
             [TCS34725_REG_CONTROL OR TCS34725_COMMAND_BIT,
              g_tcs34725_integration_time (sim_world sim_regs0 []) OR TCS34725_GAIN_16X]
             1 (dev (sim_world sim_regs0 []))) = 0"
    by code_simp
  have c: "(4 :: u8) \<notin>
      {TCS34725_GAIN_1X, TCS34725_GAIN_4X, TCS34725_GAIN_16X, TCS34725_GAIN_60X}"
    by (simp add: tcs34725_consts)
  show ?thesis
    using set_gain_enumerated [of TCS34725_GAIN_16X sim_env "sim_world sim_regs0 []"]
      set_gain_enumerated [of 4 sim_env "sim_world sim_regs0 []"] a b c
    by blast
qed


section \<open>Configuration\<close>

text \<open>
  Claim C4. If reading the chip identity fails, or succeeds with a value other than
  \<open>TCS34725_ID\<close>, then \<open>tcs34725_config\<close> returns \<open>SYS_EINVAL\<close>, leaves the handle
  as it was, and the world it returns is the world as the identity read left it: the
  events added are the register write of the identity read and, if that write got
  through, the one-byte read; the driver's gain, integration time and enabled flag are
  untouched. So none of \<open>tcs34725_enable\<close>, \<open>tcs34725_set_integration_time\<close> and
  \<open>tcs34725_set_gain\<close> has run.
\<close>

theorem config_identity_mismatch:
  assumes "tcs34725_get_chip_id e id0 w = (rc, chip_id, w1)"
    and "rc \<noteq> 0 \<or> chip_id \<noteq> TCS34725_ID"
  shows "tcs34725_config e id0 h c w = (SYS_EINVAL, h, w1) \<and> SYS_EINVAL \<noteq> 0 \<and>
         (trace w1 = trace w @ [I2C_Write [TCS34725_REG_ID OR TCS34725_COMMAND_BIT] 1] \<or>
          trace w1 = trace w @ [I2C_Write [TCS34725_REG_ID OR TCS34725_COMMAND_BIT] 1, I2C_Read 1 1]) \<and>
         g_tcs34725_gain w1 = g_tcs34725_gain w \<and>
         g_tcs34725_integration_time w1 = g_tcs34725_integration_time w \<and>
         g_tcs34725_enabled w1 = g_tcs34725_enabled w"
proof -
  have "tcs34725_config e id0 h c w = (SYS_EINVAL, h, w1)"
    using assms by (auto simp: tcs34725_config_def)
  with get_chip_id_effect [OF assms(1)] SYS_EINVAL_nonzero show ?thesis by simp
qed

text \<open>
  Two instances on the simulated sensor: an identity register holding 0, and an
  identity read that fails while the uninitialised local holds the expected value.
\<close>

theorem config_identity_mismatch_witness:
  "fst run_wrong_id = 0 \<and> fst (snd run_wrong_id) = 0 \<and>
   tcs34725_config sim_env 0 cfg_old cfg_new (sim_world (replicate 32 0) []) =
     (SYS_EINVAL, cfg_old, snd (snd run_wrong_id)) \<and>
   trace (snd (snd run_wrong_id)) = [I2C_Write [0x92] 1, I2C_Read 1 1] \<and>
   fst run_id_read_fails = 9 \<and>
   tcs34725_config sim_env TCS34725_ID cfg_old cfg_new (sim_world sim_regs0 [0, 9]) =
     (SYS_EINVAL, cfg_old, snd (snd run_id_read_fails))"
proof -
  have a: "tcs34725_get_chip_id sim_env 0 (sim_world (replicate 32 0) []) =
      (fst run_wrong_id, fst (snd run_wrong_id), snd (snd run_wrong_id))"
    by (simp add: run_wrong_id_def)
  have b: "fst run_wrong_id \<noteq> 0 \<or> fst (snd run_wrong_id) \<noteq> TCS34725_ID"
    by code_simp
  have c: "tcs34725_get_chip_id sim_env TCS34725_ID (sim_world sim_regs0 [0, 9]) =
      (fst run_id_read_fails, fst (snd run_id_read_fails), snd (snd run_id_read_fails))"
    by (simp add: run_id_read_fails_def)
  have d: "fst run_id_read_fails \<noteq> 0 \<or> fst (snd run_id_read_fails) \<noteq> TCS34725_ID"
    by code_simp
  have e: "fst run_wrong_id = 0 \<and> fst (snd run_wrong_id) = 0 \<and>
      trace (snd (snd run_wrong_id)) = [I2C_Write [0x92] 1, I2C_Read 1 1] \<and>
      fst run_id_read_fails = 9"
    by code_simp
  show ?thesis
    using config_identity_mismatch [OF a b] config_identity_mismatch [OF c d] e
    by simp
qed

text \<open>
  Claim C5. Name the results of the identity read and of the three steps as
  \<open>tcs34725_config\<close> runs them, each on the world the one before left. Then
  \<open>tcs34725_config\<close> returns 0 exactly when the identity read succeeded with the
  expected identity and all three steps returned 0; the handle it returns carries the
  new configuration in that case and is the old handle in every other; and once the
  identity check has passed, the world it returns is the world after all three steps,
  whichever of them failed: their bus operations and their updates of the driver's
  globals stay as they are.
\<close>

theorem config_snapshot:
  assumes "tcs34725_get_chip_id e id0 w = (rc0, chip_id, w1)"
    and "tcs34725_enable e 1 w1 = (rc1, w2)"
    and "tcs34725_set_integration_time e (integration_time c) w2 = (rc2, w3)"
    and "tcs34725_set_gain e (gain c) w3 = (rc3, w4)"
    and "tcs34725_config e id0 h c w = (rc, h', w')"
  shows "(rc = 0 \<longleftrightarrow> rc0 = 0 \<and> chip_id = TCS34725_ID \<and> rc1 = 0 \<and> rc2 = 0 \<and> rc3 = 0) \<and>
         h' = (if rc = 0 then h\<lparr>cfg := c\<rparr> else h) \<and>
         w' = (if rc0 = 0 \<and> chip_id = TCS34725_ID then w4 else w1)"
  using assms SYS_EINVAL_nonzero
  by (auto simp: tcs34725_config_def Let_def or_rc_zero split: if_splits)

text \<open>
  An instance on the simulated sensor: the write of the integration time fails with
  code 7. The call fails, the handle keeps its old configuration, and the world holds
  the enable write before the failure and the gain write after it.
\<close>

theorem config_snapshot_witness:
  "fst run_step_id = 0 \<and> fst (snd run_step_id) = TCS34725_ID \<and> fst run_step_enable = 0 \<and>
   fst run_step_time = 7 \<and> fst run_step_gain = 0 \<and>
   fst run_config_faulty \<noteq> 0 \<and>
   fst (snd run_config_faulty) = cfg_old \<and>
   snd (snd run_config_faulty) = snd run_step_gain \<and>
   trace (snd run_step_gain) =
     [I2C_Write [0x92] 1, I2C_Read 1 1, I2C_Write [0x80] 1, I2C_Read 1 1, OS_Delay 4,
      I2C_Write [0x80, 0x03] 1, I2C_Write [0x81, 0xC0] 1, I2C_Write [0x8F, 0x02] 1]"
proof -
  have a: "tcs34725_get_chip_id sim_env 0 faulty_world =
      (fst run_step_id, fst (snd run_step_id), snd (snd run_step_id))"
    by (simp add: run_step_id_def)
  have b: "tcs34725_enable sim_env 1 (snd (snd run_step_id)) =
      (fst run_step_enable, snd run_step_enable)"
    by (simp add: run_step_enable_def)
  have c: "tcs34725_set_integration_time sim_env (integration_time cfg_new) (snd run_step_enable) =
      (fst run_step_time, snd run_step_time)"
    by (simp add: run_step_time_def)
  have d: "tcs34725_set_gain sim_env (gain cfg_new) (snd run_step_time) =
      (fst run_step_gain, snd run_step_gain)"
    by (simp add: run_step_gain_def)
  have e: "tcs34725_config sim_env 0 cfg_old cfg_new faulty_world =
      (fst run_config_faulty, fst (snd run_config_faulty), snd (snd run_config_faulty))"
    by (simp add: run_config_faulty_def)
  have f: "fst run_step_id = 0 \<and> fst (snd run_step_id) = TCS34725_ID \<and>
      fst run_step_enable = 0 \<and> fst run_step_time = 7 \<and> fst run_step_gain = 0 \<and>
      trace (snd run_step_gain) =
       [I2C_Write [0x92] 1, I2C_Read 1 1, I2C_Write [0x80] 1, I2C_Read 1 1, OS_Delay 4,
        I2C_Write [0x80, 0x03] 1, I2C_Write [0x81, 0xC0] 1, I2C_Write [0x8F, 0x02] 1]"
    by code_simp
  show ?thesis
    using config_snapshot [OF a b c d e] f by simp
qed

section \<open>Acquisition\<close>

text \<open>
  Claim C7. When the register write and the eight-byte read of an acquisition both
  succeed, \<open>tcs34725_get_rawdata\<close> returns 0 and the four channels are the
  little-endian values of the byte pairs in the order clear, red, green, blue: clear
  is byte 0 plus 256 times byte 1, red is byte 2 plus 256 times byte 3, green is
  byte 4 plus 256 times byte 5, blue is byte 6 plus 256 times byte 7.
\<close>

theorem get_rawdata_decodes:
  assumes "hal_i2c_master_write e [TCS34725_REG_CDATAL OR TCS34725_COMMAND_BIT] 1
             (os_time_delay e (get_rawdata_delay_ticks e (integration_time (cfg h))) (dev w)) = (0, d1)"
    and "hal_i2c_master_read e 8 1 d1 = (0, [c0, c1, r0, r1, g0, g1, b0, b1], d2)"
  shows "\<exists>r g b c w'.
           tcs34725_get_rawdata e h w = Some (0, r, g, b, c, w') \<and>
           unat c = unat c0 + 256 * unat c1 \<and>
           unat r = unat r0 + 256 * unat r1 \<and>
           unat g = unat g0 + 256 * unat g1 \<and>
           unat b = unat b0 + 256 * unat b1"
proof -
  have "tcs34725_get_rawdata e h w =
      Some (0, le16 r0 r1, le16 g0 g1, le16 b0 b1, le16 c0 c1,
        stats_inc_samples e (integration_time (cfg h))
          (w\<lparr>dev := d2,
             trace := trace w @
               [OS_Delay (get_rawdata_delay_ticks e (integration_time (cfg h))),
                I2C_Write [TCS34725_REG_CDATAL OR TCS34725_COMMAND_BIT] 1, I2C_Read 8 1]\<rparr>))"
    using assms
    by (simp add: tcs34725_get_rawdata_def readlen_8 delay_def Let_def block8)
  then show ?thesis
    by (simp only: le16_unat [symmetric]) blast
qed

text \<open>
  The block \<open>10 00 20 00 30 00 40 00\<close> (hexadecimal) on the simulated sensor: clear is
  0x0010, red 0x0020, green 0x0030 and blue 0x0040 (the result lists red, green, blue,
  clear).
\<close>

theorem get_rawdata_decodes_witness:
  "\<exists>w'. tcs34725_get_rawdata sim_env cfg_old (sim_world sim_regs0 []) =
          Some (0, 0x0020, 0x0030, 0x0040, 0x0010, w')"
proof -
  have a: "hal_i2c_master_write sim_env [TCS34725_REG_CDATAL OR TCS34725_COMMAND_BIT] 1
             (os_time_delay sim_env
                (get_rawdata_delay_ticks sim_env (integration_time (cfg cfg_old)))
                (dev (sim_world sim_regs0 []))) = (0, sim_dev_at_cdatal)"
    by code_simp
  have b: "hal_i2c_master_read sim_env 8 1 sim_dev_at_cdatal =
             (0, [0x10, 0x00, 0x20, 0x00, 0x30, 0x00, 0x40, 0x00], sim_dev_at_cdatal)"
    by code_simp
  from get_rawdata_decodes [OF a b] obtain r g b c w' where
    run: "tcs34725_get_rawdata sim_env cfg_old (sim_world sim_regs0 []) = Some (0, r, g, b, c, w')"
    and "unat c = unat (0x0010 :: u16)" and "unat r = unat (0x0020 :: u16)"
    and "unat g = unat (0x0030 :: u16)" and "unat b = unat (0x0040 :: u16)"
    by auto
  then have "c = 0x0010" and "r = 0x0020" and "g = 0x0030" and "b = 0x0040"
    by (simp_all only: word_unat_eq_iff)
  with run show ?thesis by blast
qed

text \<open>
  Claim C8. On a platform whose tick rate keeps the driver's \<open>int\<close> arithmetic in
  range (at most 3067833 ticks per second), for every integration-time byte \<open>t\<close> in
  the handle, the first thing an acquisition does is sleep for \<open>d\<close> ticks, where \<open>d\<close>
  ticks are strictly longer than the nominal conversion time of \<open>t\<close>
  (\<open>d / OS_TICKS_PER_SEC\<close> seconds against \<open>spec_nominal_us t\<close> microseconds), and
  \<open>d\<close> is one tick more than the whole ticks contained in the nominal time rounded up
  to whole milliseconds. Bytes outside the table count as milliseconds.
\<close>

theorem get_rawdata_delay_exceeds_nominal:
  assumes "OS_TICKS_PER_SEC e \<le> 3067833"
  shows "\<exists>rc r g b c w' d evs.
     tcs34725_get_rawdata e \<lparr>cfg = \<lparr>integration_time = t, gain = gn\<rparr>\<rparr> w =
       Some (rc, r, g, b, c, w') \<and>
     trace w' = trace w @ OS_Delay d # evs \<and>
     spec_nominal_us t * int (OS_TICKS_PER_SEC e) < d * 1000000 \<and>
     d = (((spec_nominal_us t + 999) div 1000) * int (OS_TICKS_PER_SEC e)) div 1000 + 1"
proof -
  let ?h = "\<lparr>cfg = \<lparr>integration_time = t, gain = gn\<rparr>\<rparr>"
  from get_rawdata_events [of e ?h w] obtain rc r g b c w' where
    run: "tcs34725_get_rawdata e ?h w = Some (rc, r, g, b, c, w')"
    and "\<exists>evs. trace w' = trace w @ OS_Delay (get_rawdata_delay_ticks e t) # evs"
    by auto
  then obtain evs where "trace w' = trace w @ OS_Delay (get_rawdata_delay_ticks e t) # evs"
    by blast
  with run delay_ticks_bound [OF assms, of t] show ?thesis by blast
qed

text \<open>An instance: 2.4 ms at 1000 ticks per second gives a sleep of 4 ticks.\<close>

theorem get_rawdata_delay_exceeds_nominal_witness:
  "OS_TICKS_PER_SEC sim_env \<le> 3067833 \<and>
   (\<exists>rc r g b c w' evs.
     tcs34725_get_rawdata sim_env
       \<lparr>cfg = \<lparr>integration_time = TCS34725_INTEGRATIONTIME_2_4MS, gain = TCS34725_GAIN_1X\<rparr>\<rparr>
       (sim_world sim_regs0 []) = Some (rc, r, g, b, c, w') \<and>
     trace w' = OS_Delay 4 # evs \<and>
     spec_nominal_us TCS34725_INTEGRATIONTIME_2_4MS * int (OS_TICKS_PER_SEC sim_env) < 4 * 1000000)"
proof -
  have rate: "OS_TICKS_PER_SEC sim_env \<le> 3067833"
    by (simp add: sim_env_def)
  have a: "(((spec_nominal_us TCS34725_INTEGRATIONTIME_2_4MS + 999) div 1000) *
            int (OS_TICKS_PER_SEC sim_env)) div 1000 + 1 = 4"
    by (simp add: spec_nominal_us_def sim_env_def)
  have b: "trace (sim_world sim_regs0 []) = []"
    by (simp add: sim_world_def)
  show ?thesis
    using rate get_rawdata_delay_exceeds_nominal
      [OF rate, of TCS34725_INTEGRATIONTIME_2_4MS TCS34725_GAIN_1X "sim_world sim_regs0 []"]
    unfolding a b by auto
qed

text \<open>
  Claim C3, as the code has it. Every acquisition returns, and what it adds to the
  record of events is, in this order: a sleep of the ticks that belong to the
  integration time in the configuration snapshot of the handle, the register write
  that opens the block read, and, unless that write failed, the read of eight bytes.
  A failed write makes the acquisition fail. The integration time held by the driver's
  global, which is what the setter writes, has no influence on the return code, the
  channels or the events.
\<close>

theorem get_rawdata_waits_snapshot_delay:
  "(\<exists>rc r g b c w'.
      tcs34725_get_rawdata e h w = Some (rc, r, g, b, c, w') \<and>
      (trace w' = trace w @
         [OS_Delay (get_rawdata_delay_ticks e (integration_time (cfg h))),
          I2C_Write [TCS34725_REG_CDATAL OR TCS34725_COMMAND_BIT] 1] \<and> rc \<noteq> 0 \<or>
       trace w' = trace w @
         [OS_Delay (get_rawdata_delay_ticks e (integration_time (cfg h))),
          I2C_Write [TCS34725_REG_CDATAL OR TCS34725_COMMAND_BIT] 1, I2C_Read 8 1])) \<and>
   map_option sample_of (tcs34725_get_rawdata e h (w\<lparr>g_tcs34725_integration_time := t\<rparr>)) =
     map_option sample_of (tcs34725_get_rawdata e h w)"
  using get_rawdata_events [of e h w] get_rawdata_ignores_global [of e h t w] by simp

text \<open>An instance: the handle configured for 2.4 ms on the simulated sensor.\<close>

theorem get_rawdata_waits_snapshot_delay_witness:
  "\<exists>rc r g b c w'.
     tcs34725_get_rawdata sim_env cfg_old (sim_world sim_regs0 []) = Some (rc, r, g, b, c, w') \<and>
     (trace w' = [OS_Delay 4, I2C_Write [0x94] 1] \<and> rc \<noteq> 0 \<or>
      trace w' = [OS_Delay 4, I2C_Write [0x94] 1, I2C_Read 8 1])"
proof -
  have a: "get_rawdata_delay_ticks sim_env (integration_time (cfg cfg_old)) = 4"
    by code_simp
  have b: "trace (sim_world sim_regs0 []) = []"
    by (simp add: sim_world_def)
  have c: "TCS34725_REG_CDATAL OR TCS34725_COMMAND_BIT = 0x94"
    by (simp add: tcs34725_consts)
  show ?thesis
    using get_rawdata_waits_snapshot_delay [of sim_env cfg_old "sim_world sim_regs0 []" 0]
    unfolding a b c by simp
qed

text \<open>
  Claim C3, as stated, fails. On the simulated sensor, configure for 2.4 ms, apply
  700 ms through \<open>tcs34725_set_integration_time\<close> (which succeeds, and the getter
  reports 700 ms), then acquire: the sample is read and reported after a sleep of
  4 ticks, where the setting just applied asks for 701.
\<close>

theorem get_rawdata_delay_not_from_setter:
  "fst run_config = 0 \<and>
   integration_time (cfg (fst (snd run_config))) = TCS34725_INTEGRATIONTIME_2_4MS \<and>
   fst run_set_time = 0 \<and>
   tcs34725_get_integration_time (snd run_set_time) = TCS34725_INTEGRATIONTIME_700MS \<and>
   get_rawdata_delay_ticks sim_env TCS34725_INTEGRATIONTIME_700MS = 701 \<and>
   map_option fst run_get_rawdata = Some 0 \<and>
   map_option (trace \<circ> snd \<circ> snd \<circ> snd \<circ> snd \<circ> snd) run_get_rawdata =
     Some [I2C_Write [0x92] 1, I2C_Read 1 1, I2C_Write [0x80] 1, I2C_Read 1 1, OS_Delay 4,
           I2C_Write [0x80, 0x03] 1, I2C_Write [0x81, 0xFF] 1, I2C_Write [0x8F, 0xFF] 1,
           I2C_Write [0x81, 0x00] 1,
           OS_Delay 4, I2C_Write [0x94] 1, I2C_Read 8 1]"
  by code_simp

section \<open>Block write and interrupt limits\<close>

text \<open>
  Claim C1, evaluated on the code. Writing the four bytes \<open>0A 00 05 00\<close> to register
  0x04 succeeds, and what has gone over the bus is the register byte alone in one
  transaction, without the command bit, and four zero bytes in a second one: the
  payload is copied behind the register byte, but the first write is issued with a
  length of 1, and the array is cleared before the second.
\<close>

theorem writelen_sends_zeros:
  "map_option fst
     (tcs34725_writelen sim_env 0x04 [0x0A, 0x00, 0x05, 0x00] 4 (sim_world sim_regs0 [])) =
     Some 0 \<and>
   map_option (trace \<circ> snd)
     (tcs34725_writelen sim_env 0x04 [0x0A, 0x00, 0x05, 0x00] 4 (sim_world sim_regs0 [])) =
     Some [I2C_Write [0x04] 1, I2C_Write [0x00, 0x00, 0x00, 0x00] 4]"
  by code_simp

text \<open>
  Claim C2, evaluated on the code. Setting the limits to (10, 5) succeeds and is, in
  return code, bus traffic and resulting world, the same as setting them to (0, 0):
  the bus sees the register byte 0x04 and four zero bytes. Reading the limits back
  then succeeds with (0, 0), the content the threshold registers had before.
\<close>

theorem set_int_limits_lost:
  "run_set_limits = tcs34725_set_int_limits sim_env 0 0 (sim_world sim_regs0 []) \<and>
   map_option fst run_set_limits = Some 0 \<and>
   map_option (trace \<circ> snd) run_set_limits =
     Some [I2C_Write [0x04] 1, I2C_Write [0x00, 0x00, 0x00, 0x00] 4] \<and>
   map_option fst run_get_limits = Some 0 \<and>
   map_option (fst \<circ> snd) run_get_limits = Some 0 \<and>
   map_option (fst \<circ> snd \<circ> snd) run_get_limits = Some 0 \<and>
   map_option (trace \<circ> snd \<circ> snd \<circ> snd) run_get_limits =
     Some [I2C_Write [0x04] 1, I2C_Write [0x00, 0x00, 0x00, 0x00] 4,
           I2C_Write [0x84] 1, I2C_Read 4 1]"
  by code_simp

section \<open>Error counter\<close>

text \<open>
  Claim C9, evaluated on the code. With the statistics compiled in and a bus whose
  next transaction fails with code 5, \<open>tcs34725_clear_interrupt\<close> returns 5 and the
  error counter stays at 0, while \<open>tcs34725_write8\<close> on the same bus returns 5 and
  leaves the counter at 1.
\<close>

theorem clear_interrupt_failure_not_counted:
  "TCS34725_STATS sim_env \<and>
   fst (tcs34725_clear_interrupt sim_env (sim_world sim_regs0 [5])) = 5 \<and>
   errors (g_tcs34725stats (snd (tcs34725_clear_interrupt sim_env (sim_world sim_regs0 [5])))) = 0 \<and>
   fst (tcs34725_write8 sim_env TCS34725_REG_ENABLE 0 (sim_world sim_regs0 [5])) = 5 \<and>
   errors (g_tcs34725stats (snd (tcs34725_write8 sim_env TCS34725_REG_ENABLE 0 (sim_world sim_regs0 [5])))) = 1"
  by code_simp

end
